theory Spec2Isabelle
  imports Complex_Main "HOL-Library.Sublist"
begin

section \<open>The asset library component: data model\<close>

text \<open>
  The component \<^verbatim>\<open>AssetLibrary\<close> (AssetLibrary.tsx) keeps a list of asset records in its
  state and reconciles video-generation jobs through the backend client. Only the fields
  the handlers, the filter and the progress bar read or write are kept; \<open>local_url\<close> and
  \<open>local_status\<close> are the keys \<^verbatim>\<open>url\<close> and \<^verbatim>\<open>status\<close> that
  \<^verbatim>\<open>{ ...asset, ...updates }\<close> adds to a local record.
  JavaScript strings are modelled as \<open>string\<close>, nullable fields as \<open>option\<close>, numbers
  as \<open>real\<close> (the rounding of doubles is not modelled).
\<close>

record asset =
  asset_id :: string
  asset_url :: "string option"
  description :: "string option"
  asset_type :: string
  source_system :: "string option"
  title :: string
  instruction :: string
  tags :: "string list option"
  favorited :: bool
  local_url :: "string option"
  local_status :: "string option"

text \<open>The argument \<^verbatim>\<open>updates: { url?: string; status?: string }\<close> of \<^verbatim>\<open>updateAsset\<close>.\<close>

record updates =
  upd_url :: "string option"
  upd_status :: "string option"

text \<open>\<^verbatim>\<open>response.data.data\<close> of the status endpoint, as destructured at line 265.\<close>

record status_data =
  status :: string
  videoUrl :: "string option"
  errorMessage :: "string option"

text \<open>One entry of \<^verbatim>\<open>response.data.data\<close> of the bulk recovery endpoint; only \<^verbatim>\<open>r.updated\<close> is read.\<close>

record recovery_result =
  updated :: bool

text \<open>
  \<^verbatim>\<open>response.data\<close>: either \<^verbatim>\<open>success\<close> with its \<^verbatim>\<open>data\<close>, or not, with an optional
  \<^verbatim>\<open>error\<close>. A rejected call is \<open>Inl\<close> of the thrown error's message.
\<close>

datatype 'a api_response = ApiOk 'a | ApiFail "string option"

type_synonym 'a api_call = "string + 'a api_response"

text \<open>
  The backend and the library hook are not part of the component: their answers are
  parameters. Each handler calls each endpoint at most once, so a function per endpoint
  covers every backend, stateful or not. \<^verbatim>\<open>String.prototype.toLowerCase\<close> follows the
  Unicode tables of the runtime and is a parameter too.
\<close>

record env =
  getStatus :: "string \<Rightarrow> status_data api_call"
  recoverPending :: "recovery_result list api_call"
  apiUpdateAsset :: "string \<Rightarrow> updates \<Rightarrow> unit api_call"
  getLibraryAssets :: "string + asset list"
  toLowerCase :: "string \<Rightarrow> string"

text \<open>The notifications of the component, one constructor per \<^verbatim>\<open>toast({...})\<close> call site.\<close>

datatype toast =
    CheckingVideoStatus
  | RecoveryCompleted nat nat
  | VideoReady
  | VideoFailed string
  | StillProcessing
  | FailedToGetVideoStatus string
  | RecoveringPendingVideos
  | BulkRecoveryCompleted nat nat
  | FailedToRecoverVideos string
  | UploadNotAvailable

text \<open>What a handler does to the outside, in order.\<close>

datatype event =
    Toast toast
  | CallGetStatus string
  | CallRecoverPending
  | CallUpdateAsset string updates
  | CallGetLibraryAssets

record ui_state =
  assets :: "asset list"
  filteredAssets :: "asset list"
  searchTerm :: string
  selectedType :: string
  showFavoritesOnly :: bool
  showUploadModal :: bool
  selectedAssetForUpload :: "asset option"

section \<open>JavaScript truthiness and strings\<close>

definition truthy :: "string option \<Rightarrow> bool" where
  "truthy s = (case s of None \<Rightarrow> False | Some v \<Rightarrow> v \<noteq> [])"

text \<open>\<^verbatim>\<open>s || d\<close> on an optional string.\<close>

definition strOr :: "string option \<Rightarrow> string \<Rightarrow> string" where
  "strOr s d = (case s of None \<Rightarrow> d | Some v \<Rightarrow> if v = [] then d else v)"

text \<open>\<^verbatim>\<open>x || d\<close> on an optional number: a missing entry and \<open>0\<close> both give \<open>d\<close>.\<close>

definition numOr :: "real option \<Rightarrow> real \<Rightarrow> real" where
  "numOr x d = (case x of None \<Rightarrow> d | Some v \<Rightarrow> if v = 0 then d else v)"

text \<open>\<^verbatim>\<open>!x\<close> on an optional number.\<close>

definition falsyNum :: "real option \<Rightarrow> bool" where
  "falsyNum x = (case x of None \<Rightarrow> True | Some v \<Rightarrow> v = 0)"

definition startsWith :: "string \<Rightarrow> string \<Rightarrow> bool" where
  "startsWith s p = prefix p s"

text \<open>\<^verbatim>\<open>s.replace(p, '')\<close> with a string pattern: the first occurrence of \<open>p\<close> is removed.\<close>

fun removeFirst :: "string \<Rightarrow> string \<Rightarrow> string" where
  "removeFirst p [] = []"
| "removeFirst p (c # cs) =
     (if prefix p (c # cs) then drop (length p) (c # cs) else c # removeFirst p cs)"

text \<open>\<^verbatim>\<open>s.includes(p)\<close>: \<open>p\<close> occurs in \<open>s\<close>.\<close>

fun includesStr :: "string \<Rightarrow> string \<Rightarrow> bool" where
  "includesStr [] p = (p = [])"
| "includesStr (c # cs) p = (prefix p (c # cs) \<or> includesStr cs p)"

text \<open>\<^verbatim>\<open>\w\<close>: the ASCII letters, digits and the underscore.\<close>

definition isWordChar :: "char \<Rightarrow> bool" where
  "isWordChar c =
     (let n = (of_char c :: nat)
      in (48 \<le> n \<and> n \<le> 57) \<or> (65 \<le> n \<and> n \<le> 90) \<or> (97 \<le> n \<and> n \<le> 122) \<or> n = 95)"

definition lowerAscii :: "char \<Rightarrow> char" where
  "lowerAscii c =
     (let n = (of_char c :: nat) in if 65 \<le> n \<and> n \<le> 90 then char_of (n + 32) else c)"

text \<open>
  \<^verbatim>\<open>/video_id[:_](\w+)/i\<close> tried at the head of a string: the capture group is the longest
  run of word characters after the separator, and it must not be empty.
\<close>

definition matchVideoIdHere :: "string \<Rightarrow> string option" where
  "matchVideoIdHere s =
     (if map lowerAscii (take 8 s) = ''video_id''
         \<and> (take 1 (drop 8 s) = '':'' \<or> take 1 (drop 8 s) = ''_'')
         \<and> takeWhile isWordChar (drop 9 s) \<noteq> []
      then Some (takeWhile isWordChar (drop 9 s)) else None)"

text \<open>\<^verbatim>\<open>description.match(...)\<close>: the leftmost position where the pattern matches.\<close>

fun matchVideoId :: "string \<Rightarrow> string option" where
  "matchVideoId [] = None"
| "matchVideoId (c # cs) =
     (case matchVideoIdHere (c # cs) of Some v \<Rightarrow> Some v | None \<Rightarrow> matchVideoId cs)"

section \<open>Progress simulation (lines 65--111)\<close>

definition totalDuration :: real where
  "totalDuration = 300"

definition targetProgress :: real where
  "targetProgress = 92"

text \<open>Lines 86--93: the progress computed from the elapsed seconds.\<close>

definition newProgress :: "real \<Rightarrow> real" where
  "newProgress elapsedTime =
     (if elapsedTime \<ge> totalDuration then targetProgress
      else min targetProgress ((elapsedTime / totalDuration) * targetProgress))"

text \<open>The estimator as the specification words it: linear, clamped at the cap.\<close>

definition estimate_spec :: "real \<Rightarrow> real" where
  "estimate_spec t = min targetProgress ((t / totalDuration) * targetProgress)"

text \<open>Lines 67--69: which assets the simulation treats as in flight.\<close>

definition isProcessingVideo :: "asset \<Rightarrow> bool" where
  "isProcessingVideo a =
     (asset_url a = Some ''processing'' \<or> asset_url a = Some ''pending''
      \<or> (case asset_url a of None \<Rightarrow> False | Some u \<Rightarrow> startsWith u ''pending_''))"

text \<open>
  \<^verbatim>\<open>progressStates: Record<string, number>\<close> holds, for an asset id \<open>k\<close>, the progress
  under \<open>k\<close> and the start time under \<open>k_startTime\<close>.
\<close>

type_synonym progress_states = "string \<rightharpoonup> real"

definition startTimeKey :: "asset \<Rightarrow> string" where
  "startTimeKey a = asset_id a @ ''_startTime''"

text \<open>
  The body of \<^verbatim>\<open>processingVideos.forEach\<close> for one asset. \<open>now1\<close> is the clock read as
  the default start time, \<open>now2\<close> the clock read for the elapsed time (milliseconds).
\<close>

definition progressStep :: "real \<Rightarrow> real \<Rightarrow> asset \<Rightarrow> progress_states \<times> bool \<Rightarrow> progress_states \<times> bool" where
  "progressStep now1 now2 a acc =
     (let newStates = fst acc; hasUpdates = snd acc;
          currentProgress = numOr (newStates (asset_id a)) 0;
          startTime = numOr (newStates (startTimeKey a)) now1;
          elapsedTime = (now2 - startTime) / 1000;
          np = newProgress elapsedTime;
          withStart = (if falsyNum (newStates (startTimeKey a))
                       then newStates(startTimeKey a \<mapsto> startTime) else newStates)
      in if np \<noteq> currentProgress then (withStart(asset_id a \<mapsto> np), True)
         else (withStart, hasUpdates))"

text \<open>
  The state updater run by the interval: every processing video with the two clock
  readings taken while it is handled; the new object is kept only if some progress changed.
\<close>

definition progressTick :: "(asset \<times> real \<times> real) list \<Rightarrow> progress_states \<Rightarrow> progress_states" where
  "progressTick work prev =
     (let r = fold (\<lambda>(a, now1, now2). progressStep now1 now2 a) work (prev, False)
      in if snd r then fst r else prev)"

text \<open>
  Lines 512--523: the width of the progress bar on the card of an asset, in percent. The
  bar is rendered only for a video whose location is \<open>processing\<close> or \<open>pending\<close>; any
  other card shows no percentage.
\<close>

definition displayedProgress :: "progress_states \<Rightarrow> asset \<Rightarrow> real option" where
  "displayedProgress ps a =
     (if asset_type a = ''video''
         \<and> (asset_url a = Some ''processing'' \<or> asset_url a = Some ''pending'')
      then Some (numOr (ps (asset_id a)) 0) else None)"

section \<open>Filtering (lines 126--151)\<close>

text \<open>Lines 142--147: whether an asset matches the lower-cased search term.\<close>

definition matchesSearch :: "(string \<Rightarrow> string) \<Rightarrow> string \<Rightarrow> asset \<Rightarrow> bool" where
  "matchesSearch lower search a =
     (includesStr (lower (title a)) search
      \<or> (case description a of None \<Rightarrow> False | Some d \<Rightarrow> includesStr (lower d) search)
      \<or> includesStr (lower (instruction a)) search
      \<or> (case tags a of None \<Rightarrow> False | Some ts \<Rightarrow> list_ex (\<lambda>t. includesStr (lower t) search) ts))"

text \<open>Lines 127--148: the assets that pass the type, favourites and search filters.\<close>

definition applyFilters :: "(string \<Rightarrow> string) \<Rightarrow> ui_state \<Rightarrow> asset list \<Rightarrow> asset list" where
  "applyFilters lower st xs =
     (let byType = (if selectedType st \<noteq> ''all''
                    then filter (\<lambda>a. asset_type a = selectedType st) xs else xs);
          byFavorite = (if showFavoritesOnly st then filter favorited byType else byType)
      in if searchTerm st \<noteq> []
         then filter (matchesSearch lower (lower (searchTerm st))) byFavorite
         else byFavorite)"

text \<open>
  The effect of lines 126--151. It depends on \<^verbatim>\<open>assets\<close>, so it runs after every render
  in which the asset list was replaced, and sets \<^verbatim>\<open>filteredAssets\<close> anew.
\<close>

definition filterEffect :: "env \<Rightarrow> ui_state \<Rightarrow> ui_state" where
  "filterEffect e st = st\<lparr>filteredAssets := applyFilters (toLowerCase e) st (assets st)\<rparr>"

section \<open>Upload gate (lines 334--345, 364--366, 651)\<close>

definition handleUpload :: "ui_state \<Rightarrow> asset \<Rightarrow> ui_state \<times> event list" where
  "handleUpload st a =
     (if asset_type a = ''video'' \<and> truthy (asset_url a)
         \<and> asset_url a \<noteq> Some ''processing'' \<and> asset_url a \<noteq> Some ''pending''
      then (st\<lparr>selectedAssetForUpload := Some a, showUploadModal := True\<rparr>, [])
      else (st, [Toast UploadNotAvailable]))"

definition hasPendingHeyGenVideos :: "asset list \<Rightarrow> bool" where
  "hasPendingHeyGenVideos xs =
     list_ex (\<lambda>a. source_system a = Some ''heygen''
                  \<and> (asset_url a = Some ''pending'' \<or> asset_url a = Some ''processing''
                     \<or> (case asset_url a of None \<Rightarrow> False | Some u \<Rightarrow> startsWith u ''pending_''))) xs"

text \<open>Line 651: whether the upload button of an asset card is rendered.\<close>

definition uploadButtonShown :: "asset \<Rightarrow> bool" where
  "uploadButtonShown a =
     (asset_type a = ''video'' \<and> truthy (asset_url a)
      \<and> asset_url a \<noteq> Some ''processing'' \<and> asset_url a \<noteq> Some ''pending'')"

section \<open>Handlers as actions on the component state\<close>

text \<open>
  An \<^verbatim>\<open>async\<close> handler body is an action: from the component state it gives the events
  it caused, the state it left, and either the message of the error it threw (\<open>Inl\<close>)
  or its value. An error keeps the events and state changes made before it.
\<close>

type_synonym 'a action = "ui_state \<Rightarrow> event list \<times> ui_state \<times> (string + 'a)"

definition throw :: "string \<Rightarrow> 'a action" where
  "throw msg = (\<lambda>st. ([], st, Inl msg))"

definition emit :: "event \<Rightarrow> unit action" where
  "emit e = (\<lambda>st. ([e], st, Inr ()))"

definition andThen :: "'a action \<Rightarrow> ('a \<Rightarrow> 'b action) \<Rightarrow> 'b action" where
  "andThen m f =
     (\<lambda>st. case m st of
        (ev, st', Inl e) \<Rightarrow> (ev, st', Inl e)
      | (ev, st', Inr x) \<Rightarrow> (case f x st' of (ev', st'', r) \<Rightarrow> (ev @ ev', st'', r)))"

text \<open>
  \<^verbatim>\<open>const response = await call(); if (response.data.success) ... else throw new
  Error(response.data.error || dflt)\<close>: the pattern of all four backend calls.
\<close>

definition await :: "event \<Rightarrow> 'a api_call \<Rightarrow> string \<Rightarrow> 'a action" where
  "await ev resp dflt =
     (\<lambda>st. ([ev], st,
        case resp of
          Inl e \<Rightarrow> Inl e
        | Inr (ApiFail e) \<Rightarrow> Inl (strOr e dflt)
        | Inr (ApiOk d) \<Rightarrow> Inr d))"

text \<open>\<^verbatim>\<open>{ ...asset, ...updates }\<close>: the keys present in \<open>updates\<close> are set on the local record.\<close>

definition mergeUpdates :: "asset \<Rightarrow> updates \<Rightarrow> asset" where
  "mergeUpdates a u =
     a\<lparr>local_url := (case upd_url u of None \<Rightarrow> local_url a | Some v \<Rightarrow> Some v),
       local_status := (case upd_status u of None \<Rightarrow> local_status a | Some v \<Rightarrow> Some v)\<rparr>"

text \<open>
  Lines 34--55. The \<^verbatim>\<open>catch\<close> logs and rethrows, so an error passes through. After
  \<^verbatim>\<open>setAssets\<close> the filter effect runs.
\<close>

definition updateAsset :: "env \<Rightarrow> string \<Rightarrow> updates \<Rightarrow> unit action" where
  "updateAsset e assetId u =
     andThen (await (CallUpdateAsset assetId u) (apiUpdateAsset e assetId u) ''Failed to update asset'')
       (\<lambda>_ st. ([], filterEffect e
                         (st\<lparr>assets := map (\<lambda>a. if asset_id a = assetId then mergeUpdates a u else a)
                                          (assets st)\<rparr>), Inr ()))"

text \<open>
  Lines 57--63: \<^verbatim>\<open>setAssets(data); setFilteredAssets(data)\<close>, after which the filter effect
  runs on the new list.
\<close>

definition loadAssets :: "env \<Rightarrow> unit action" where
  "loadAssets e =
     (\<lambda>st. ([CallGetLibraryAssets],
        (case getLibraryAssets e of
           Inl err \<Rightarrow> (st, Inl err)
         | Inr d \<Rightarrow> (filterEffect e (st\<lparr>assets := d, filteredAssets := d\<rparr>), Inr ()))))"

section \<open>Single-job status check (lines 217--301)\<close>

text \<open>Lines 235--241: the video id from the description, if the description is not empty.\<close>

definition descriptionVideoId :: "asset \<Rightarrow> string option" where
  "descriptionVideoId a =
     (case description a of
        None \<Rightarrow> None
      | Some d \<Rightarrow> if d = [] then None else matchVideoId d)"

text \<open>Lines 231--241: the value of \<^verbatim>\<open>videoId\<close> after the extraction.\<close>

definition extractVideoId :: "asset \<Rightarrow> string option" where
  "extractVideoId a =
     (case asset_url a of
        None \<Rightarrow> descriptionVideoId a
      | Some u \<Rightarrow>
          if u \<noteq> [] \<and> startsWith u ''pending_'' then Some (removeFirst ''pending_'' u)
          else descriptionVideoId a)"

text \<open>Lines 243--259: no video id, so the bulk recovery endpoint is used.\<close>

definition recoverBranch :: "env \<Rightarrow> unit action" where
  "recoverBranch e =
     andThen (await CallRecoverPending (recoverPending e) ''Recovery failed'')
       (\<lambda>rs. andThen (emit (Toast (RecoveryCompleted (length rs) (length (filter updated rs)))))
          (\<lambda>_. loadAssets e))"

text \<open>Lines 267--286: what is done with the status the backend reports.\<close>

definition classify :: "env \<Rightarrow> string \<Rightarrow> status_data \<Rightarrow> unit action" where
  "classify e assetId d =
     (if status d = ''completed'' \<and> truthy (videoUrl d) then
        andThen (updateAsset e assetId \<lparr>upd_url = videoUrl d, upd_status = Some ''completed''\<rparr>)
          (\<lambda>_. emit (Toast VideoReady))
      else if status d = ''failed'' then
        andThen (updateAsset e assetId \<lparr>upd_url = None, upd_status = Some ''failed''\<rparr>)
          (\<lambda>_. emit (Toast (VideoFailed (strOr (errorMessage d) ''Video generation failed.''))))
      else emit (Toast StillProcessing))"

text \<open>Lines 261--292: the status endpoint for one video id.\<close>

definition statusBranch :: "env \<Rightarrow> string \<Rightarrow> string \<Rightarrow> unit action" where
  "statusBranch e assetId videoId =
     andThen (await (CallGetStatus videoId) (getStatus e videoId) ''Failed to get video status'')
       (\<lambda>d. andThen (classify e assetId d) (\<lambda>_. loadAssets e))"

text \<open>Line 225: \<^verbatim>\<open>assets.find(a => a.id === assetId)\<close>.\<close>

definition findAsset :: "string \<Rightarrow> asset list \<Rightarrow> asset option" where
  "findAsset assetId xs = find (\<lambda>a. asset_id a = assetId) xs"

text \<open>The \<^verbatim>\<open>try\<close> block of \<^verbatim>\<open>handleRefreshVideo\<close>.\<close>

definition refreshBody :: "env \<Rightarrow> string \<Rightarrow> unit action" where
  "refreshBody e assetId =
     (\<lambda>st. case findAsset assetId (assets st) of
        None \<Rightarrow> throw ''Asset not found'' st
      | Some a \<Rightarrow>
          (case extractVideoId a of
             None \<Rightarrow> recoverBranch e st
           | Some v \<Rightarrow> if v = [] then recoverBranch e st else statusBranch e assetId v st))"

text \<open>
  \<^verbatim>\<open>handleRefreshVideo\<close>: the opening toast, the \<^verbatim>\<open>try\<close> block, and the \<^verbatim>\<open>catch\<close> that
  turns every error into a toast. The result is the new state and the events in order.
\<close>

definition handleRefreshVideo :: "env \<Rightarrow> ui_state \<Rightarrow> string \<Rightarrow> ui_state \<times> event list" where
  "handleRefreshVideo e st assetId =
     (case refreshBody e assetId st of
        (ev, st', Inl msg) \<Rightarrow>
          (st', Toast CheckingVideoStatus # ev
                @ [Toast (FailedToGetVideoStatus
                     (strOr (Some msg) ''Could not retrieve video status from HeyGen.''))])
      | (ev, st', Inr _) \<Rightarrow> (st', Toast CheckingVideoStatus # ev))"

section \<open>Bulk recovery (lines 303--332)\<close>

definition bulkBody :: "env \<Rightarrow> unit action" where
  "bulkBody e =
     andThen (await CallRecoverPending (recoverPending e) ''Bulk recovery failed'')
       (\<lambda>rs. andThen (emit (Toast (BulkRecoveryCompleted (length rs) (length (filter updated rs)))))
          (\<lambda>_. loadAssets e))"

definition handleBulkRecovery :: "env \<Rightarrow> ui_state \<Rightarrow> ui_state \<times> event list" where
  "handleBulkRecovery e st =
     (case bulkBody e st of
        (ev, st', Inl msg) \<Rightarrow>
          (st', Toast RecoveringPendingVideos # ev
                @ [Toast (FailedToRecoverVideos
                     (strOr (Some msg) ''Could not recover pending videos.''))])
      | (ev, st', Inr _) \<Rightarrow> (st', Toast RecoveringPendingVideos # ev))"

text \<open>The calls a handler made to the backend store, and whether it reached the backend at all.\<close>

definition writes :: "event list \<Rightarrow> (string \<times> updates) list" where
  "writes evs = concat (map (\<lambda>ev. case ev of CallUpdateAsset i u \<Rightarrow> [(i, u)] | _ \<Rightarrow> []) evs)"

definition providerCalls :: "event list \<Rightarrow> event list" where
  "providerCalls evs =
     filter (\<lambda>ev. case ev of CallGetStatus _ \<Rightarrow> True | CallRecoverPending \<Rightarrow> True | _ \<Rightarrow> False) evs"

text \<open>The job is terminal when none of lines 67--69 holds of its location.\<close>

definition isTerminal :: "asset \<Rightarrow> bool" where
  "isTerminal a = (\<not> isProcessingVideo a)"

section \<open>Bulk recovery on the backend\<close>

text \<open>
  The component only calls the bulk recovery endpoint; the reconciliation loop behind it
  is backend code. The definitions of this section follow sections 3, 4.1, 4.2 and 4.3
  of the specification.
\<close>

datatype job_state = Pending | Processing | Completed | Failed | Unknown

record generation_job =
  job_id :: string
  externalJobId :: "string option"
  state :: job_state
  resultLocation :: "string option"
  job_errorMessage :: "string option"

datatype provider_state = ProviderCompleted | ProviderFailed | ProviderInProgress

record provider_status =
  providerState :: provider_state
  resultUrl :: "string option"
  providerMessage :: "string option"

datatype provider_error = TransientProviderError | PermanentProviderError

type_synonym provider = "string \<Rightarrow> provider_error + provider_status"

datatype outcome = NoOp | Unresolvable | Retryable | OutcomeCompleted | OutcomeFailed | StillInFlight

record reconcile_outcome =
  jobId :: string
  kind :: outcome
  previousState :: job_state
  newState :: job_state
  outcome_updated :: bool

definition terminalState :: "job_state \<Rightarrow> bool" where
  "terminalState s = (s = Completed \<or> s = Failed)"

definition unchanged :: "generation_job \<Rightarrow> outcome \<Rightarrow> reconcile_outcome \<times> generation_job" where
  "unchanged j k =
     (\<lparr>jobId = job_id j, kind = k, previousState = state j, newState = state j,
       outcome_updated = False\<rparr>, j)"

definition failJob :: "generation_job \<Rightarrow> string \<Rightarrow> reconcile_outcome \<times> generation_job" where
  "failJob j msg =
     (\<lparr>jobId = job_id j, kind = OutcomeFailed, previousState = state j, newState = Failed,
       outcome_updated = True\<rparr>,
      j\<lparr>state := Failed, job_errorMessage := Some msg\<rparr>)"

text \<open>
  Modelled from the spec: the backend's single-job check \<^verbatim>\<open>checkOne\<close> of section 4.2, which
  is not among the sources. The texts of the default messages are left open by the
  specification; the failure text of the component is used for all of them.
\<close>

definition checkOne :: "provider \<Rightarrow> generation_job \<Rightarrow> reconcile_outcome \<times> generation_job" where
  "checkOne fetchStatus j =
     (if terminalState (state j) then unchanged j NoOp
      else case externalJobId j of
        None \<Rightarrow> unchanged j Unresolvable
      | Some ext \<Rightarrow>
          (case fetchStatus ext of
             Inl TransientProviderError \<Rightarrow> unchanged j Retryable
           | Inl PermanentProviderError \<Rightarrow> failJob j ''Video generation failed.''
           | Inr ps \<Rightarrow>
               (case providerState ps of
                  ProviderCompleted \<Rightarrow>
                    (if truthy (resultUrl ps) then
                       (\<lparr>jobId = job_id j, kind = OutcomeCompleted, previousState = state j,
                         newState = Completed, outcome_updated = True\<rparr>,
                        j\<lparr>state := Completed, resultLocation := resultUrl ps,
                          job_errorMessage := None\<rparr>)
                     else failJob j ''Video generation failed.'')
                | ProviderFailed \<Rightarrow>
                    failJob j (strOr (providerMessage ps) ''Video generation failed.'')
                | ProviderInProgress \<Rightarrow>
                    (if state j = Pending then
                       (\<lparr>jobId = job_id j, kind = StillInFlight, previousState = Pending,
                         newState = Processing, outcome_updated = True\<rparr>,
                        j\<lparr>state := Processing\<rparr>)
                     else unchanged j StillInFlight))))"

text \<open>The jobs bulk recovery works on: non-terminal and externally addressable.\<close>

definition recoverable :: "generation_job \<Rightarrow> bool" where
  "recoverable j = (\<not> terminalState (state j) \<and> externalJobId j \<noteq> None)"

text \<open>
  Modelled from the spec: the backend's \<^verbatim>\<open>recoverAll\<close> of section 4.3, which is not among the
  sources. It walks the store, checks every recoverable job with \<open>checkOne\<close> and returns
  the outcomes with the store after the writes.
\<close>

fun recoverAll :: "provider \<Rightarrow> generation_job list \<Rightarrow> reconcile_outcome list \<times> generation_job list" where
  "recoverAll fetchStatus [] = ([], [])"
| "recoverAll fetchStatus (j # js) =
     (let rest = recoverAll fetchStatus js
      in if recoverable j
         then (let r = checkOne fetchStatus j in (fst r # fst rest, snd r # snd rest))
         else (fst rest, j # snd rest))"

text \<open>The consumer-facing entries of section 6, as the component reads them.\<close>

definition toRecoveryResults :: "reconcile_outcome list \<Rightarrow> recovery_result list" where
  "toRecoveryResults os = map (\<lambda>r. \<lparr>updated = outcome_updated r\<rparr>) os"

section \<open>Example inputs\<close>

definition mkAsset :: "string \<Rightarrow> string option \<Rightarrow> string option \<Rightarrow> asset" where
  "mkAsset i u d =
     \<lparr>asset_id = i, asset_url = u, description = d, asset_type = ''video'',
      source_system = Some ''heygen'', title = ''Launch video'', instruction = ''Make a video'',
      tags = None, favorited = False, local_url = None, local_status = None\<rparr>"

text \<open>The component with the filters as they are at the start: all types, no search.\<close>

definition mkState :: "asset list \<Rightarrow> ui_state" where
  "mkState xs =
     \<lparr>assets = xs, filteredAssets = xs, searchTerm = [], selectedType = ''all'',
      showFavoritesOnly = False, showUploadModal = False, selectedAssetForUpload = None\<rparr>"

text \<open>A backend that answers every status request with \<open>d\<close>, accepts every write, and
  returns \<open>lib\<close> as the library.\<close>

definition mkEnv :: "status_data \<Rightarrow> asset list \<Rightarrow> env" where
  "mkEnv d lib =
     \<lparr>getStatus = (\<lambda>_. Inr (ApiOk d)),
      recoverPending = Inr (ApiOk [\<lparr>updated = True\<rparr>]),
      apiUpdateAsset = (\<lambda>_ _. Inr (ApiOk ())),
      getLibraryAssets = Inr lib,
      toLowerCase = map lowerAscii\<rparr>"

text \<open>A backend whose status endpoint is unavailable.\<close>

definition downEnv :: env where
  "downEnv =
     \<lparr>getStatus = (\<lambda>_. Inl ''Request failed with status code 503''),
      recoverPending = Inl ''Request failed with status code 503'',
      apiUpdateAsset = (\<lambda>_ _. Inr (ApiOk ())),
      getLibraryAssets = Inr [],
      toLowerCase = map lowerAscii\<rparr>"

definition pendingJob :: asset where
  "pendingJob = mkAsset ''a1'' (Some ''pending_ext-9'') None"

definition queuedJob :: asset where
  "queuedJob = mkAsset ''a1'' (Some ''pending'') None"

definition completedJob :: asset where
  "completedJob = mkAsset ''a1'' (Some ''https://x/video.mp4'') (Some ''HeyGen video_id:abc'')"

definition completedReport :: status_data where
  "completedReport = \<lparr>status = ''completed'', videoUrl = Some ''https://x/video.mp4'', errorMessage = None\<rparr>"

definition failedReport :: status_data where
  "failedReport = \<lparr>status = ''failed'', videoUrl = None, errorMessage = Some ''boom''\<rparr>"

definition processingReport :: status_data where
  "processingReport = \<lparr>status = ''processing'', videoUrl = None, errorMessage = None\<rparr>"

definition mkJob :: "string \<Rightarrow> string option \<Rightarrow> job_state \<Rightarrow> generation_job" where
  "mkJob i ext s =
     \<lparr>job_id = i, externalJobId = ext, state = s, resultLocation = None, job_errorMessage = None\<rparr>"

text \<open>A provider that is down for \<open>ext-3\<close> and reports every other job completed.\<close>

definition flakyProvider :: provider where
  "flakyProvider ext =
     (if ext = ''ext-3'' then Inl TransientProviderError
      else Inr \<lparr>providerState = ProviderCompleted, resultUrl = Some ''https://x/video.mp4'',
                providerMessage = None\<rparr>)"

definition fourJobs :: "generation_job list" where
  "fourJobs =
     [mkJob ''j1'' (Some ''ext-1'') Pending, mkJob ''j2'' (Some ''ext-2'') Processing,
      mkJob ''j3'' (Some ''ext-3'') Pending, mkJob ''j4'' (Some ''ext-4'') Pending]"

text \<open>A backend whose bulk recovery endpoint answers with the outcomes of \<open>recoverAll\<close>.\<close>

definition recoveringEnv :: "provider \<Rightarrow> generation_job list \<Rightarrow> env" where
  "recoveringEnv p js =
     (mkEnv processingReport [])\<lparr>recoverPending :=
        Inr (ApiOk (toRecoveryResults (fst (recoverAll p js))))\<rparr>"

text \<open>A backend whose status endpoint answers that the video does not exist.\<close>

definition notFoundEnv :: env where
  "notFoundEnv =
     (mkEnv processingReport [])\<lparr>getStatus := (\<lambda>_. Inr (ApiFail (Some ''video not found'')))\<rparr>"

definition failedJob :: asset where
  "failedJob = mkAsset ''a1'' (Some ''failed'') (Some ''HeyGen video_id:abc'')"

definition otherJob :: asset where
  "otherJob = mkAsset ''a2'' (Some ''processing'') None"

text \<open>The same job, queued and in processing, with the video id in its description.\<close>

definition queuedNamedJob :: asset where
  "queuedNamedJob = mkAsset ''a1'' (Some ''pending'') (Some ''HeyGen video_id:abc'')"

definition processingNamedJob :: asset where
  "processingNamedJob = mkAsset ''a1'' (Some ''processing'') (Some ''HeyGen video_id:abc'')"

text \<open>Two videos handled in one tick, each with its clock readings.\<close>

definition twoVideos :: "(asset \<times> real \<times> real) list" where
  "twoVideos = [(otherJob, 151000, 151002), (queuedJob, 151000, 151000)]"

section \<open>Auxiliary facts\<close>

lemmas handler_defs = handleRefreshVideo_def refreshBody_def recoverBranch_def statusBranch_def
  classify_def updateAsset_def loadAssets_def andThen_def await_def emit_def throw_def

lemmas branch_defs = handleRefreshVideo_def recoverBranch_def statusBranch_def
  classify_def updateAsset_def loadAssets_def andThen_def await_def emit_def throw_def

lemmas bulk_defs = handleBulkRecovery_def bulkBody_def loadAssets_def andThen_def await_def emit_def

lemmas example_defs = mkAsset_def mkState_def mkEnv_def downEnv_def notFoundEnv_def
  pendingJob_def queuedJob_def completedJob_def failedJob_def queuedNamedJob_def
  processingNamedJob_def completedReport_def failedReport_def processingReport_def
  filterEffect_def applyFilters_def Let_def

lemmas extract_defs = findAsset_def extractVideoId_def descriptionVideoId_def startsWith_def
  matchVideoIdHere_def lowerAscii_def isWordChar_def

lemmas job_defs = fourJobs_def mkJob_def flakyProvider_def recoverable_def terminalState_def
  checkOne_def unchanged_def failJob_def truthy_def

lemma matchVideoIdHere_nonempty: "matchVideoIdHere s = Some v \<Longrightarrow> v \<noteq> []"
  by (auto simp: matchVideoIdHere_def split: if_splits)

lemma matchVideoId_nonempty: "matchVideoId s = Some v \<Longrightarrow> v \<noteq> []"
  by (induction s) (auto split: option.splits dest: matchVideoIdHere_nonempty)

lemma descriptionVideoId_nonempty: "descriptionVideoId a = Some v \<Longrightarrow> v \<noteq> []"
  by (auto simp: descriptionVideoId_def split: option.splits if_splits dest: matchVideoId_nonempty)

text \<open>A terminal job carries no sentinel, so only its description can give a video id.\<close>

lemma extractVideoId_terminal: "isTerminal a \<Longrightarrow> extractVideoId a = descriptionVideoId a"
  by (auto simp: isTerminal_def isProcessingVideo_def extractVideoId_def split: option.splits)

text \<open>On a location that starts with the sentinel, \<^verbatim>\<open>replace\<close> strips it.\<close>

lemma removeFirst_prefix: "prefix p s \<Longrightarrow> removeFirst p s = drop (length p) s"
  by (cases s) auto

lemma extractVideoId_sentinel: "asset_url a = Some (''pending_'' @ ext) \<Longrightarrow> extractVideoId a = Some ext"
  by (simp add: extractVideoId_def startsWith_def removeFirst_prefix)

text \<open>A reload overwrites what the filter effect had set after a write.\<close>

lemma filterEffect_reload:
  "(filterEffect e st)\<lparr>assets := lib, filteredAssets := lib\<rparr>
     = st\<lparr>assets := lib, filteredAssets := lib\<rparr>"
  by (simp add: filterEffect_def)

text \<open>Which branch the \<^verbatim>\<open>try\<close> block takes.\<close>

lemma refresh_with_id:
  "findAsset assetId (assets st) = Some a \<Longrightarrow> extractVideoId a = Some v \<Longrightarrow> v \<noteq> [] \<Longrightarrow>
   refreshBody e assetId st = statusBranch e assetId v st"
  by (simp add: refreshBody_def)

lemma refresh_without_id:
  "findAsset assetId (assets st) = Some a \<Longrightarrow>
   extractVideoId a = None \<or> extractVideoId a = Some [] \<Longrightarrow>
   refreshBody e assetId st = recoverBranch e st"
  by (auto simp: refreshBody_def)

lemma startTimeKey_neq: "startTimeKey a \<noteq> asset_id a"
  by (simp add: startTimeKey_def)

lemma startTimeKey_inj: "startTimeKey a = startTimeKey b \<longleftrightarrow> asset_id a = asset_id b"
  by (simp add: startTimeKey_def)

text \<open>One step of the simulation: the keys of other assets, the flag, the value shown.\<close>

lemma step_other:
  "k \<noteq> asset_id a \<Longrightarrow> k \<noteq> startTimeKey a \<Longrightarrow> fst (progressStep n1 n2 a acc) k = fst acc k"
  by (simp add: progressStep_def Let_def)

lemma step_flag: "snd acc \<Longrightarrow> snd (progressStep n1 n2 a acc)"
  by (simp add: progressStep_def Let_def)

lemma step_display:
  "numOr (fst (progressStep n1 n2 a acc) (asset_id a)) 0
     = newProgress ((n2 - numOr (fst acc (startTimeKey a)) n1) / 1000)"
  using startTimeKey_neq [of a]
  by (auto simp: progressStep_def Let_def numOr_def split: option.splits)

lemma step_noflag:
  "\<not> snd (progressStep n1 n2 a acc) \<Longrightarrow>
   numOr (fst acc (asset_id a)) 0 = newProgress ((n2 - numOr (fst acc (startTimeKey a)) n1) / 1000)"
  by (auto simp: progressStep_def Let_def split: if_splits)

lemma fold_other:
  "\<forall>w \<in> set work. k \<noteq> asset_id (fst w) \<and> k \<noteq> startTimeKey (fst w) \<Longrightarrow>
   fst (fold (\<lambda>(a, now1, now2). progressStep now1 now2 a) work acc) k = fst acc k"
  by (induction work arbitrary: acc) (auto simp: step_other)

lemma fold_flag:
  "snd acc \<Longrightarrow> snd (fold (\<lambda>(a, now1, now2). progressStep now1 now2 a) work acc)"
proof (induction work arbitrary: acc)
  case Nil
  then show ?case by simp
next
  case (Cons w ws)
  obtain b m1 m2 where w: "w = (b, m1, m2)" by (cases w)
  from Cons.prems have "snd (progressStep m1 m2 b acc)" by (rule step_flag)
  then show ?case using Cons.IH w by simp
qed

text \<open>
  The whole loop, for one of its assets: the value shown afterwards, and the value shown
  before when the loop reports no update.
\<close>

lemma fold_display:
  assumes "(a, n1, n2) \<in> set work"
    and "distinct (map (\<lambda>w. asset_id (fst w)) work)"
    and "\<forall>b \<in> set work. \<forall>c \<in> set work. asset_id (fst b) \<noteq> startTimeKey (fst c)"
  shows "numOr (fst (fold (\<lambda>(a, now1, now2). progressStep now1 now2 a) work acc) (asset_id a)) 0
           = newProgress ((n2 - numOr (fst acc (startTimeKey a)) n1) / 1000)
         \<and> (\<not> snd (fold (\<lambda>(a, now1, now2). progressStep now1 now2 a) work acc) \<longrightarrow>
              numOr (fst acc (asset_id a)) 0
                = newProgress ((n2 - numOr (fst acc (startTimeKey a)) n1) / 1000))"
  using assms
proof (induction work arbitrary: acc)
  case Nil
  then show ?case by simp
next
  case (Cons w ws)
  show ?case
  proof (cases "w = (a, n1, n2)")
    case True
    have "asset_id a \<notin> (\<lambda>w. asset_id (fst w)) ` set ws"
      using Cons.prems(2) True by simp
    then have u1: "\<forall>x \<in> set ws. asset_id a \<noteq> asset_id (fst x)" by force
    have u2: "\<forall>x \<in> set ws. asset_id a \<noteq> startTimeKey (fst x)"
      using Cons.prems(3) True by force
    have untouched: "\<forall>x \<in> set ws. asset_id a \<noteq> asset_id (fst x) \<and> asset_id a \<noteq> startTimeKey (fst x)"
      using u1 u2 by blast
    have flag: "\<not> snd (fold (\<lambda>(a, now1, now2). progressStep now1 now2 a) ws (progressStep n1 n2 a acc))
                \<Longrightarrow> \<not> snd (progressStep n1 n2 a acc)"
      using fold_flag by blast
    show ?thesis
      using True untouched flag
      by (auto simp: fold_other step_display dest: step_noflag)
  next
    case False
    with Cons.prems have mem: "(a, n1, n2) \<in> set ws" by simp
    from mem have "asset_id a \<in> (\<lambda>w. asset_id (fst w)) ` set ws" by force
    moreover from Cons.prems(2) have "asset_id (fst w) \<notin> (\<lambda>w. asset_id (fst w)) ` set ws"
      by simp
    ultimately have ne: "asset_id a \<noteq> asset_id (fst w)" by metis
    from Cons.prems mem have ne2: "asset_id a \<noteq> startTimeKey (fst w)"
      and ne3: "startTimeKey a \<noteq> asset_id (fst w)" by force+
    from ne have ne4: "startTimeKey a \<noteq> startTimeKey (fst w)"
      by (simp add: startTimeKey_inj)
    obtain b m1 m2 where w: "w = (b, m1, m2)" by (cases w)
    have same: "fst (progressStep m1 m2 b acc) (startTimeKey a) = fst acc (startTimeKey a)"
      "fst (progressStep m1 m2 b acc) (asset_id a) = fst acc (asset_id a)"
      using ne ne2 ne3 ne4 w by (simp_all add: step_other)
    have "numOr (fst (fold (\<lambda>(a, now1, now2). progressStep now1 now2 a) ws (progressStep m1 m2 b acc)) (asset_id a)) 0
           = newProgress ((n2 - numOr (fst (progressStep m1 m2 b acc) (startTimeKey a)) n1) / 1000)
         \<and> (\<not> snd (fold (\<lambda>(a, now1, now2). progressStep now1 now2 a) ws (progressStep m1 m2 b acc)) \<longrightarrow>
              numOr (fst (progressStep m1 m2 b acc) (asset_id a)) 0
                = newProgress ((n2 - numOr (fst (progressStep m1 m2 b acc) (startTimeKey a)) n1) / 1000))"
      using Cons.IH [OF mem, of "progressStep m1 m2 b acc"] Cons.prems by simp
    then show ?thesis using w same by simp
  qed
qed

lemma recoverAll_outcomes:
  "fst (recoverAll p js) = map (\<lambda>j. fst (checkOne p j)) (filter recoverable js)"
  by (induction js) (simp_all add: Let_def)

lemma recoverAll_store:
  "snd (recoverAll p js) = map (\<lambda>j. if recoverable j then snd (checkOne p j) else j) js"
  by (induction js) (simp_all add: Let_def)

lemma checkOne_transient:
  assumes "recoverable j" and "externalJobId j = Some ext" and "p ext = Inl TransientProviderError"
  shows "checkOne p j = unchanged j Retryable"
  using assms by (simp add: checkOne_def recoverable_def)

lemma checkOne_permanent:
  assumes "recoverable j" and "externalJobId j = Some ext" and "p ext = Inl PermanentProviderError"
  shows "checkOne p j = failJob j ''Video generation failed.''"
  using assms by (simp add: checkOne_def recoverable_def)

lemma checkOne_jobId: "jobId (fst (checkOne p j)) = job_id j"
  by (simp add: checkOne_def unchanged_def failJob_def
      split: option.splits sum.splits provider_error.splits provider_state.splits)

lemma updated_count:
  "length (filter updated (toRecoveryResults os)) = length (filter outcome_updated os)"
  by (induction os) (simp_all add: toRecoveryResults_def)

section \<open>The single-job check\<close>

text \<open>
  Claim C1, as the specification states it: a check of a job that is already terminal
  changes nothing and does not contact the provider. \<^verbatim>\<open>handleRefreshVideo\<close> has no such
  guard (the refresh button is shown for every HeyGen video). What holds instead: for a
  terminal job the check contacts the backend exactly once, the status endpoint when the
  description holds a video id and the bulk recovery endpoint otherwise, and it sends a
  write for the job exactly when the status endpoint answers \<open>completed\<close> with a video
  URL, or \<open>failed\<close>.
\<close>

theorem C1_terminal_job_is_rechecked:
  assumes "findAsset assetId (assets st) = Some a" and "isTerminal a"
  shows "providerCalls (snd (handleRefreshVideo e st assetId))
           = [case descriptionVideoId a of None \<Rightarrow> CallRecoverPending | Some v \<Rightarrow> CallGetStatus v]
         \<and> (writes (snd (handleRefreshVideo e st assetId)) \<noteq> []
              \<longleftrightarrow> (\<exists>v d. descriptionVideoId a = Some v \<and> getStatus e v = Inr (ApiOk d)
                      \<and> (status d = ''completed'' \<and> truthy (videoUrl d) \<or> status d = ''failed'')))"
proof (cases "descriptionVideoId a")
  case None
  with assms have "refreshBody e assetId st = recoverBranch e st"
    by (simp add: refresh_without_id extractVideoId_terminal)
  with None show ?thesis
    by (simp add: branch_defs writes_def providerCalls_def split: sum.splits api_response.splits)
next
  case (Some v)
  then have "v \<noteq> []" by (rule descriptionVideoId_nonempty)
  with Some assms have body: "refreshBody e assetId st = statusBranch e assetId v st"
    by (simp add: refresh_with_id extractVideoId_terminal)
  show ?thesis
  proof (cases "getStatus e v")
    case (Inl m)
    with Some body show ?thesis
      by (simp add: branch_defs writes_def providerCalls_def)
  next
    case (Inr r)
    show ?thesis
    proof (cases r)
      case (ApiOk d)
      with Inr Some body show ?thesis
        by (simp add: branch_defs writes_def providerCalls_def split: sum.splits api_response.splits)
    next
      case (ApiFail err)
      with Inr Some body show ?thesis
        by (simp add: branch_defs writes_def providerCalls_def)
    qed
  qed
qed

text \<open>A completed job whose description names the video, rechecked while the provider reports it failed.\<close>

theorem C1_witness:
  "findAsset ''a1'' (assets (mkState [completedJob])) = Some completedJob
   \<and> isTerminal completedJob
   \<and> descriptionVideoId completedJob = Some ''abc''
   \<and> providerCalls (snd (handleRefreshVideo (mkEnv failedReport [failedJob]) (mkState [completedJob]) ''a1''))
       = [CallGetStatus ''abc'']
   \<and> writes (snd (handleRefreshVideo (mkEnv failedReport [failedJob]) (mkState [completedJob]) ''a1''))
       \<noteq> []"
  using C1_terminal_job_is_rechecked [where assetId = "''a1''" and st = "mkState [completedJob]"
      and a = completedJob and e = "mkEnv failedReport [failedJob]"]
  by (simp add: example_defs extract_defs isTerminal_def isProcessingVideo_def)

text \<open>
  The claim fails there: the provider is asked, the completed job is written as failed,
  and the reloaded record differs.
\<close>

theorem C1_counterexample:
  "isTerminal completedJob
   \<and> handleRefreshVideo (mkEnv failedReport [failedJob]) (mkState [completedJob]) ''a1''
      = (mkState [failedJob],
         [Toast CheckingVideoStatus, CallGetStatus ''abc'',
          CallUpdateAsset ''a1'' \<lparr>upd_url = None, upd_status = Some ''failed''\<rparr>,
          Toast (VideoFailed ''boom''), CallGetLibraryAssets])
   \<and> mkState [failedJob] \<noteq> mkState [completedJob]"
  by (simp add: handler_defs example_defs extract_defs isTerminal_def isProcessingVideo_def
      truthy_def strOr_def)

text \<open>
  Claim C2, as the specification states it: a job without an extractable external id
  gets the outcome \<open>Unresolvable\<close> and its record stays as it is. The code takes another
  way (``If we can't find a video ID, use the backend bulk recovery endpoint''). What
  holds instead: for such a job the check sends no write of its own and calls the bulk
  recovery endpoint once; when that succeeds it reports the number of checked and updated
  videos and replaces the local records by the reloaded library (filtered anew for the
  list that is shown); when it fails the local state is unchanged and the failure is
  reported.
\<close>

theorem C2_no_video_id_falls_back_to_bulk_recovery:
  assumes "findAsset assetId (assets st) = Some a"
    and "extractVideoId a = None \<or> extractVideoId a = Some []"
  shows "writes (snd (handleRefreshVideo e st assetId)) = []
         \<and> providerCalls (snd (handleRefreshVideo e st assetId)) = [CallRecoverPending]
         \<and> (case recoverPending e of
               Inr (ApiOk rs) \<Rightarrow>
                 take 4 (snd (handleRefreshVideo e st assetId))
                   = [Toast CheckingVideoStatus, CallRecoverPending,
                      Toast (RecoveryCompleted (length rs) (length (filter updated rs))),
                      CallGetLibraryAssets]
                 \<and> fst (handleRefreshVideo e st assetId)
                   = (case getLibraryAssets e of
                        Inr lib \<Rightarrow> filterEffect e (st\<lparr>assets := lib, filteredAssets := lib\<rparr>)
                      | Inl _ \<Rightarrow> st)
             | _ \<Rightarrow>
                 fst (handleRefreshVideo e st assetId) = st
                 \<and> (\<exists>msg. snd (handleRefreshVideo e st assetId)
                       = [Toast CheckingVideoStatus, CallRecoverPending,
                          Toast (FailedToGetVideoStatus msg)]))"
  using assms
  by (auto simp: handler_defs writes_def providerCalls_def split: sum.splits api_response.splits)

theorem C2_witness:
  "findAsset ''a1'' (assets (mkState [queuedJob])) = Some queuedJob
   \<and> extractVideoId queuedJob = None
   \<and> writes (snd (handleRefreshVideo (mkEnv processingReport [completedJob]) (mkState [queuedJob]) ''a1'')) = []
   \<and> providerCalls (snd (handleRefreshVideo (mkEnv processingReport [completedJob]) (mkState [queuedJob]) ''a1''))
       = [CallRecoverPending]
   \<and> fst (handleRefreshVideo (mkEnv processingReport [completedJob]) (mkState [queuedJob]) ''a1'')
       = mkState [completedJob]"
  using C2_no_video_id_falls_back_to_bulk_recovery [where assetId = "''a1''"
      and st = "mkState [queuedJob]" and a = queuedJob and e = "mkEnv processingReport [completedJob]"]
  by (simp add: example_defs extract_defs)

text \<open>
  The claim fails on a queued job without any id: the outcome is a completed recovery,
  not \<open>Unresolvable\<close>, and the local record is replaced.
\<close>

theorem C2_counterexample:
  "extractVideoId queuedJob = None
   \<and> handleRefreshVideo (mkEnv processingReport [completedJob]) (mkState [queuedJob]) ''a1''
       = (mkState [completedJob],
          [Toast CheckingVideoStatus, CallRecoverPending, Toast (RecoveryCompleted 1 1),
           CallGetLibraryAssets])
   \<and> mkState [completedJob] \<noteq> mkState [queuedJob]"
  by (simp add: handler_defs example_defs extract_defs)

text \<open>
  Claim C3, as the specification states it: when the provider reports a job completed
  with a usable result location, the check writes \<open>Completed\<close> with the location, clears
  the error message and reports previous state, new state and \<open>updated = true\<close>. The
  component reports a notification, which is the same whatever the state of the job was,
  and the write has no field for an error message. What holds instead: the check sends
  exactly one write for the job, with status \<open>completed\<close> and the provider's video URL
  and nothing else; the store accepting it, the local record takes both values, the
  events are the status request, the write, the \<open>Video Ready\<close> notification and the
  reload, none of which carries a previous or a new state, and the local records are
  replaced by the reloaded library.
\<close>

theorem C3_completed_write:
  assumes "findAsset assetId (assets st) = Some a"
    and "extractVideoId a = Some v" and "v \<noteq> []"
    and "getStatus e v = Inr (ApiOk d)"
    and "status d = ''completed''" and "videoUrl d = Some u" and "u \<noteq> []"
    and "w = \<lparr>upd_url = Some u, upd_status = Some ''completed''\<rparr>"
  shows "writes (snd (handleRefreshVideo e st assetId)) = [(assetId, w)]
         \<and> (apiUpdateAsset e assetId w = Inr (ApiOk ()) \<longrightarrow>
               snd (handleRefreshVideo e st assetId)
                 = [Toast CheckingVideoStatus, CallGetStatus v, CallUpdateAsset assetId w,
                    Toast VideoReady, CallGetLibraryAssets]
                   @ (case getLibraryAssets e of
                        Inr _ \<Rightarrow> []
                      | Inl m \<Rightarrow>
                          [Toast (FailedToGetVideoStatus
                             (strOr (Some m) ''Could not retrieve video status from HeyGen.''))])
               \<and> fst (handleRefreshVideo e st assetId)
                 = (case getLibraryAssets e of
                      Inr lib \<Rightarrow> filterEffect e (st\<lparr>assets := lib, filteredAssets := lib\<rparr>)
                    | Inl _ \<Rightarrow>
                        filterEffect e
                          (st\<lparr>assets := map (\<lambda>x. if asset_id x = assetId
                                                 then mergeUpdates x w else x) (assets st)\<rparr>)))"
proof -
  from assms have "refreshBody e assetId st = statusBranch e assetId v st"
    by (simp add: refresh_with_id)
  with assms show ?thesis
    by (auto simp: branch_defs writes_def truthy_def filterEffect_reload
        split: sum.splits api_response.splits)
qed

text \<open>The scenario of the specification: job \<open>a1\<close> with external id \<open>ext-9\<close>, reported completed.\<close>

theorem C3_witness:
  "findAsset ''a1'' (assets (mkState [pendingJob])) = Some pendingJob
   \<and> isProcessingVideo pendingJob
   \<and> extractVideoId pendingJob = Some ''ext-9''
   \<and> getStatus (mkEnv completedReport [completedJob]) ''ext-9'' = Inr (ApiOk completedReport)
   \<and> videoUrl completedReport = Some ''https://x/video.mp4''
   \<and> apiUpdateAsset (mkEnv completedReport [completedJob]) ''a1''
        \<lparr>upd_url = Some ''https://x/video.mp4'', upd_status = Some ''completed''\<rparr> = Inr (ApiOk ())
   \<and> writes (snd (handleRefreshVideo (mkEnv completedReport [completedJob]) (mkState [pendingJob]) ''a1''))
       = [(''a1'', \<lparr>upd_url = Some ''https://x/video.mp4'', upd_status = Some ''completed''\<rparr>)]
   \<and> snd (handleRefreshVideo (mkEnv completedReport [completedJob]) (mkState [pendingJob]) ''a1'')
       = [Toast CheckingVideoStatus, CallGetStatus ''ext-9'',
          CallUpdateAsset ''a1'' \<lparr>upd_url = Some ''https://x/video.mp4'', upd_status = Some ''completed''\<rparr>,
          Toast VideoReady, CallGetLibraryAssets]
   \<and> fst (handleRefreshVideo (mkEnv completedReport [completedJob]) (mkState [pendingJob]) ''a1'')
       = mkState [completedJob]"
  using C3_completed_write [where assetId = "''a1''" and st = "mkState [pendingJob]"
      and a = pendingJob and v = "''ext-9''" and e = "mkEnv completedReport [completedJob]"
      and d = completedReport and u = "''https://x/video.mp4''"
      and w = "\<lparr>upd_url = Some ''https://x/video.mp4'', upd_status = Some ''completed''\<rparr>"]
  by (simp add: example_defs extract_defs isProcessingVideo_def writes_def)

text \<open>
  The claim fails with an accepting store: the same job, once queued and once in
  processing, is reported completed, and everything the check reports is the same in
  both runs. Nothing in it is the previous state, and the write carries the status and
  the URL only.
\<close>

theorem C3_counterexample:
  "asset_url queuedNamedJob = Some ''pending''
   \<and> asset_url processingNamedJob = Some ''processing''
   \<and> handleRefreshVideo (mkEnv completedReport [completedJob]) (mkState [queuedNamedJob]) ''a1''
      = (mkState [completedJob],
         [Toast CheckingVideoStatus, CallGetStatus ''abc'',
          CallUpdateAsset ''a1''
            \<lparr>upd_url = Some ''https://x/video.mp4'', upd_status = Some ''completed''\<rparr>,
          Toast VideoReady, CallGetLibraryAssets])
   \<and> handleRefreshVideo (mkEnv completedReport [completedJob]) (mkState [processingNamedJob]) ''a1''
      = (mkState [completedJob],
         [Toast CheckingVideoStatus, CallGetStatus ''abc'',
          CallUpdateAsset ''a1''
            \<lparr>upd_url = Some ''https://x/video.mp4'', upd_status = Some ''completed''\<rparr>,
          Toast VideoReady, CallGetLibraryAssets])"
  by (simp add: handler_defs example_defs extract_defs truthy_def)

text \<open>
  Claim C4, as the specification states it: when the provider reports a job failed, the
  check writes \<open>Failed\<close> and stores an error message on the record. The argument of
  \<^verbatim>\<open>updateAsset\<close> has no field for a message. What holds instead: the check sends
  exactly one write for the job, with status \<open>failed\<close>, no URL and no message; when the
  store accepts it, the provider's message, or \<open>Video generation failed.\<close> when there is
  none or it is empty, is shown in the failure notification only.
\<close>

theorem C4_failed_write:
  assumes "findAsset assetId (assets st) = Some a"
    and "extractVideoId a = Some v" and "v \<noteq> []"
    and "getStatus e v = Inr (ApiOk d)"
    and "status d = ''failed''"
    and "w = \<lparr>upd_url = None, upd_status = Some ''failed''\<rparr>"
  shows "writes (snd (handleRefreshVideo e st assetId)) = [(assetId, w)]
         \<and> (apiUpdateAsset e assetId w = Inr (ApiOk ()) \<longrightarrow>
               take 5 (snd (handleRefreshVideo e st assetId))
                 = [Toast CheckingVideoStatus, CallGetStatus v, CallUpdateAsset assetId w,
                    Toast (VideoFailed (strOr (errorMessage d) ''Video generation failed.'')),
                    CallGetLibraryAssets])
         \<and> (apiUpdateAsset e assetId w \<noteq> Inr (ApiOk ()) \<longrightarrow>
               fst (handleRefreshVideo e st assetId) = st
               \<and> (\<exists>msg. snd (handleRefreshVideo e st assetId)
                     = [Toast CheckingVideoStatus, CallGetStatus v, CallUpdateAsset assetId w,
                        Toast (FailedToGetVideoStatus msg)]))"
proof -
  from assms have "refreshBody e assetId st = statusBranch e assetId v st"
    by (simp add: refresh_with_id)
  with assms show ?thesis
    by (auto simp: branch_defs writes_def truthy_def split: sum.splits api_response.splits)
qed

theorem C4_witness:
  "findAsset ''a1'' (assets (mkState [pendingJob])) = Some pendingJob
   \<and> isProcessingVideo pendingJob
   \<and> extractVideoId pendingJob = Some ''ext-9''
   \<and> getStatus (mkEnv failedReport [failedJob]) ''ext-9'' = Inr (ApiOk failedReport)
   \<and> status failedReport = ''failed''
   \<and> writes (snd (handleRefreshVideo (mkEnv failedReport [failedJob]) (mkState [pendingJob]) ''a1''))
       = [(''a1'', \<lparr>upd_url = None, upd_status = Some ''failed''\<rparr>)]
   \<and> take 5 (snd (handleRefreshVideo (mkEnv failedReport [failedJob]) (mkState [pendingJob]) ''a1''))
       = [Toast CheckingVideoStatus, CallGetStatus ''ext-9'',
          CallUpdateAsset ''a1'' \<lparr>upd_url = None, upd_status = Some ''failed''\<rparr>,
          Toast (VideoFailed ''boom''), CallGetLibraryAssets]"
  using C4_failed_write [where assetId = "''a1''" and st = "mkState [pendingJob]"
      and a = pendingJob and v = "''ext-9''" and e = "mkEnv failedReport [failedJob]"
      and d = failedReport and w = "\<lparr>upd_url = None, upd_status = Some ''failed''\<rparr>"]
  by (simp add: example_defs extract_defs isProcessingVideo_def strOr_def)

text \<open>
  The claim fails there: the provider's message \<open>boom\<close> reaches the notification, and the
  only write sent to the store carries the status alone.
\<close>

theorem C4_counterexample:
  "isProcessingVideo pendingJob \<and> extractVideoId pendingJob = Some ''ext-9''
   \<and> errorMessage failedReport = Some ''boom''
   \<and> handleRefreshVideo (mkEnv failedReport [failedJob]) (mkState [pendingJob]) ''a1''
      = (mkState [failedJob],
         [Toast CheckingVideoStatus, CallGetStatus ''ext-9'',
          CallUpdateAsset ''a1'' \<lparr>upd_url = None, upd_status = Some ''failed''\<rparr>,
          Toast (VideoFailed ''boom''), CallGetLibraryAssets])"
  by (simp add: handler_defs example_defs extract_defs isProcessingVideo_def truthy_def strOr_def)

text \<open>
  Claim C5, as the specification states it: when the provider reports a job still in
  progress, the check writes \<open>Processing\<close> if the job is \<open>Pending\<close>. The component never
  writes a processing status. What holds instead: when the status endpoint answers
  anything but \<open>completed\<close> with a video URL or \<open>failed\<close>, the check sends no write
  whatever the state of the job, reports \<open>Still Processing\<close> and reloads the library;
  no progress value is persisted.
\<close>

theorem C5_still_processing_no_write:
  assumes "findAsset assetId (assets st) = Some a"
    and "extractVideoId a = Some v" and "v \<noteq> []"
    and "getStatus e v = Inr (ApiOk d)"
    and "\<not> (status d = ''completed'' \<and> truthy (videoUrl d))" and "status d \<noteq> ''failed''"
  shows "writes (snd (handleRefreshVideo e st assetId)) = []
         \<and> take 4 (snd (handleRefreshVideo e st assetId))
             = [Toast CheckingVideoStatus, CallGetStatus v, Toast StillProcessing,
                CallGetLibraryAssets]
         \<and> fst (handleRefreshVideo e st assetId)
             = (case getLibraryAssets e of
                  Inr lib \<Rightarrow> filterEffect e (st\<lparr>assets := lib, filteredAssets := lib\<rparr>)
                | Inl _ \<Rightarrow> st)"
proof -
  from assms have "refreshBody e assetId st = statusBranch e assetId v st"
    by (simp add: refresh_with_id)
  with assms show ?thesis
    by (auto simp: branch_defs writes_def split: sum.splits api_response.splits)
qed

theorem C5_witness:
  "findAsset ''a1'' (assets (mkState [pendingJob])) = Some pendingJob
   \<and> extractVideoId pendingJob = Some ''ext-9''
   \<and> getStatus (mkEnv processingReport [pendingJob]) ''ext-9'' = Inr (ApiOk processingReport)
   \<and> status processingReport = ''processing''
   \<and> writes (snd (handleRefreshVideo (mkEnv processingReport [pendingJob]) (mkState [pendingJob]) ''a1'')) = []
   \<and> take 4 (snd (handleRefreshVideo (mkEnv processingReport [pendingJob]) (mkState [pendingJob]) ''a1''))
       = [Toast CheckingVideoStatus, CallGetStatus ''ext-9'', Toast StillProcessing,
          CallGetLibraryAssets]
   \<and> fst (handleRefreshVideo (mkEnv processingReport [pendingJob]) (mkState [pendingJob]) ''a1'')
       = mkState [pendingJob]"
  using C5_still_processing_no_write [where assetId = "''a1''" and st = "mkState [pendingJob]"
      and a = pendingJob and v = "''ext-9''" and e = "mkEnv processingReport [pendingJob]"
      and d = processingReport]
  by (simp add: example_defs extract_defs)

text \<open>
  The claim fails on a pending job reported as processing: no write is sent, so the job
  is not moved to \<open>Processing\<close>.
\<close>

theorem C5_counterexample:
  "asset_url pendingJob = Some ''pending_ext-9'' \<and> extractVideoId pendingJob = Some ''ext-9''
   \<and> status processingReport = ''processing''
   \<and> handleRefreshVideo (mkEnv processingReport [pendingJob]) (mkState [pendingJob]) ''a1''
      = (mkState [pendingJob],
         [Toast CheckingVideoStatus, CallGetStatus ''ext-9'', Toast StillProcessing,
          CallGetLibraryAssets])"
  by (simp add: handler_defs example_defs extract_defs truthy_def)

text \<open>
  Claim C6, as the specification states it: on a transient provider error the check
  returns the outcome \<open>Retryable\<close>, changes nothing and raises nothing. The component has
  one \<^verbatim>\<open>catch\<close> for every error and no outcome that tells a transient failure from
  another. What holds instead: when the status request for a job is rejected (as on a
  503) or answered without success, the check leaves the state as it was, sends no write,
  returns normally, and reports the \<open>Failed to Get Video Status\<close> notification with the
  message of the error, or with a default text when there is none; the same notification
  is reported when the asset is not in the list.
\<close>

theorem C6_failure_is_reported_not_classified:
  "(findAsset assetId (assets st) = Some a \<and> extractVideoId a = Some v \<and> v \<noteq> [] \<longrightarrow>
      (getStatus e v = Inl m \<longrightarrow>
         handleRefreshVideo e st assetId
           = (st, [Toast CheckingVideoStatus, CallGetStatus v,
                   Toast (FailedToGetVideoStatus
                     (strOr (Some m) ''Could not retrieve video status from HeyGen.''))]))
      \<and> (getStatus e v = Inr (ApiFail err) \<longrightarrow>
         handleRefreshVideo e st assetId
           = (st, [Toast CheckingVideoStatus, CallGetStatus v,
                   Toast (FailedToGetVideoStatus (strOr err ''Failed to get video status''))]))
      \<and> ((\<forall>d. getStatus e v \<noteq> Inr (ApiOk d)) \<longrightarrow>
         fst (handleRefreshVideo e st assetId) = st
         \<and> writes (snd (handleRefreshVideo e st assetId)) = []))
   \<and> (findAsset assetId (assets st) = None \<longrightarrow>
        handleRefreshVideo e st assetId
          = (st, [Toast CheckingVideoStatus, Toast (FailedToGetVideoStatus ''Asset not found'')]))"
proof -
  have missing: "handleRefreshVideo e st assetId
          = (st, [Toast CheckingVideoStatus, Toast (FailedToGetVideoStatus ''Asset not found'')])"
    if "findAsset assetId (assets st) = None"
    using that by (simp add: handleRefreshVideo_def refreshBody_def throw_def strOr_def)
  have found: "(getStatus e v = Inl m \<longrightarrow>
         handleRefreshVideo e st assetId
           = (st, [Toast CheckingVideoStatus, CallGetStatus v,
                   Toast (FailedToGetVideoStatus
                     (strOr (Some m) ''Could not retrieve video status from HeyGen.''))]))
      \<and> (getStatus e v = Inr (ApiFail err) \<longrightarrow>
         handleRefreshVideo e st assetId
           = (st, [Toast CheckingVideoStatus, CallGetStatus v,
                   Toast (FailedToGetVideoStatus (strOr err ''Failed to get video status''))]))
      \<and> ((\<forall>d. getStatus e v \<noteq> Inr (ApiOk d)) \<longrightarrow>
         fst (handleRefreshVideo e st assetId) = st
         \<and> writes (snd (handleRefreshVideo e st assetId)) = [])"
    if "findAsset assetId (assets st) = Some a" and "extractVideoId a = Some v" and "v \<noteq> []"
  proof -
    from that have body: "refreshBody e assetId st = statusBranch e assetId v st"
      by (simp add: refresh_with_id)
    show ?thesis
    proof (cases "getStatus e v")
      case (Inl m')
      with body show ?thesis by (simp add: branch_defs writes_def)
    next
      case (Inr r)
      show ?thesis
      proof (cases r)
        case (ApiOk d)
        with Inr show ?thesis by simp
      next
        case (ApiFail err')
        with Inr body show ?thesis
          by (simp add: branch_defs writes_def strOr_def split: option.splits)
      qed
    qed
  qed
  from missing found show ?thesis by blast
qed

text \<open>A 503, an answer that the video does not exist, and an asset id that is not in the list.\<close>

theorem C6_witness:
  "findAsset ''a1'' (assets (mkState [pendingJob])) = Some pendingJob
   \<and> extractVideoId pendingJob = Some ''ext-9''
   \<and> getStatus downEnv ''ext-9'' = Inl ''Request failed with status code 503''
   \<and> getStatus notFoundEnv ''ext-9'' = Inr (ApiFail (Some ''video not found''))
   \<and> findAsset ''zz'' (assets (mkState [pendingJob])) = None
   \<and> fst (handleRefreshVideo downEnv (mkState [pendingJob]) ''a1'') = mkState [pendingJob]
   \<and> writes (snd (handleRefreshVideo downEnv (mkState [pendingJob]) ''a1'')) = []
   \<and> fst (handleRefreshVideo notFoundEnv (mkState [pendingJob]) ''a1'') = mkState [pendingJob]
   \<and> writes (snd (handleRefreshVideo notFoundEnv (mkState [pendingJob]) ''a1'')) = []
   \<and> handleRefreshVideo downEnv (mkState [pendingJob]) ''zz''
       = (mkState [pendingJob],
          [Toast CheckingVideoStatus, Toast (FailedToGetVideoStatus ''Asset not found'')])"
  using C6_failure_is_reported_not_classified [where assetId = "''a1''"
      and st = "mkState [pendingJob]" and a = pendingJob and v = "''ext-9''" and e = downEnv
      and m = "''Request failed with status code 503''"]
    C6_failure_is_reported_not_classified [where assetId = "''a1''"
      and st = "mkState [pendingJob]" and a = pendingJob and v = "''ext-9''" and e = notFoundEnv
      and err = "Some ''video not found''"]
    C6_failure_is_reported_not_classified [where assetId = "''zz''"
      and st = "mkState [pendingJob]" and e = downEnv]
  by (simp add: example_defs extract_defs strOr_def writes_def)

text \<open>
  The claim fails on a 503: what the check reports is the failure notification, the one
  it also reports when the backend answers that the video does not exist. No outcome
  says that the request may be tried again.
\<close>

theorem C6_counterexample:
  "handleRefreshVideo downEnv (mkState [pendingJob]) ''a1''
     = (mkState [pendingJob],
        [Toast CheckingVideoStatus, CallGetStatus ''ext-9'',
         Toast (FailedToGetVideoStatus ''Request failed with status code 503'')])
   \<and> handleRefreshVideo notFoundEnv (mkState [pendingJob]) ''a1''
     = (mkState [pendingJob],
        [Toast CheckingVideoStatus, CallGetStatus ''ext-9'',
         Toast (FailedToGetVideoStatus ''video not found'')])"
  by (simp add: handler_defs example_defs extract_defs strOr_def)

section \<open>Bulk recovery\<close>

text \<open>
  Claim C7: bulk recovery returns one outcome per non-terminal, externally addressable
  job, each computed by the single-job check of that job alone; a job whose status
  request fails transiently gets the outcome \<open>Retryable\<close> and keeps its record, one
  whose request fails permanently gets the outcome \<open>Failed\<close>, and the other jobs are
  processed all the same. \<open>recoverAll\<close> is a total function, so nothing is
  raised. The component, given these outcomes by the endpoint, reports their number and
  the number of updated ones.
\<close>

theorem C7_bulk_recovery_partial_failure:
  "fst (recoverAll p js) = map (\<lambda>j. fst (checkOne p j)) (filter recoverable js)
   \<and> map jobId (fst (recoverAll p js)) = map job_id (filter recoverable js)
   \<and> snd (recoverAll p js) = map (\<lambda>j. if recoverable j then snd (checkOne p j) else j) js
   \<and> (\<forall>j \<in> set js. \<forall>ext. recoverable j \<and> externalJobId j = Some ext
          \<and> p ext = Inl TransientProviderError \<longrightarrow>
          fst (checkOne p j)
            = \<lparr>jobId = job_id j, kind = Retryable, previousState = state j, newState = state j,
               outcome_updated = False\<rparr>
          \<and> snd (checkOne p j) = j)
   \<and> (\<forall>j \<in> set js. \<forall>ext. recoverable j \<and> externalJobId j = Some ext
          \<and> p ext = Inl PermanentProviderError \<longrightarrow>
          kind (fst (checkOne p j)) = OutcomeFailed)
   \<and> (recoverPending e = Inr (ApiOk (toRecoveryResults (fst (recoverAll p js)))) \<longrightarrow>
        take 3 (snd (handleBulkRecovery e st))
          = [Toast RecoveringPendingVideos, CallRecoverPending,
             Toast (BulkRecoveryCompleted (length (filter recoverable js))
                      (length (filter outcome_updated (fst (recoverAll p js)))))])"
proof -
  have ids: "map jobId (fst (recoverAll p js)) = map job_id (filter recoverable js)"
    by (simp add: recoverAll_outcomes comp_def checkOne_jobId)
  have ui: "take 3 (snd (handleBulkRecovery e st))
          = [Toast RecoveringPendingVideos, CallRecoverPending,
             Toast (BulkRecoveryCompleted (length (filter recoverable js))
                      (length (filter outcome_updated (fst (recoverAll p js)))))]"
    if "recoverPending e = Inr (ApiOk (toRecoveryResults (fst (recoverAll p js))))"
  proof -
    have "length (toRecoveryResults (fst (recoverAll p js))) = length (filter recoverable js)"
      by (simp add: toRecoveryResults_def recoverAll_outcomes)
    with that show ?thesis
      by (simp add: bulk_defs updated_count split: sum.splits)
  qed
  show ?thesis
    using ids ui
    by (auto simp: recoverAll_outcomes recoverAll_store checkOne_transient checkOne_permanent
        unchanged_def failJob_def)
qed

text \<open>Four jobs in flight, the provider being down for the third.\<close>

theorem C7_witness:
  "filter recoverable fourJobs = fourJobs
   \<and> flakyProvider ''ext-3'' = Inl TransientProviderError
   \<and> map kind (fst (recoverAll flakyProvider fourJobs))
       = [OutcomeCompleted, OutcomeCompleted, Retryable, OutcomeCompleted]
   \<and> map jobId (fst (recoverAll flakyProvider fourJobs)) = [''j1'', ''j2'', ''j3'', ''j4'']
   \<and> snd (recoverAll flakyProvider fourJobs) ! 2 = mkJob ''j3'' (Some ''ext-3'') Pending
   \<and> take 3 (snd (handleBulkRecovery (recoveringEnv flakyProvider fourJobs) (mkState [])))
       = [Toast RecoveringPendingVideos, CallRecoverPending, Toast (BulkRecoveryCompleted 4 3)]"
  using C7_bulk_recovery_partial_failure [where p = flakyProvider and js = fourJobs
      and e = "recoveringEnv flakyProvider fourJobs" and st = "mkState []"]
  by (simp add: job_defs recoveringEnv_def mkEnv_def numeral_3_eq_3)

section \<open>Progress estimate\<close>

text \<open>
  Claim C8: the progress computed at lines 86--93 equals \<open>min cap (t / totalDuration * cap)\<close>
  with \<open>cap = 92 < 100\<close> and \<open>totalDuration = 300\<close>; it is \<open>0\<close> at \<open>0\<close>, non-decreasing,
  at most the cap, not negative from \<open>0\<close> on, and equal to the cap from the total
  duration on.
\<close>

theorem C8_progress_estimator:
  "newProgress t = estimate_spec t
   \<and> targetProgress = 92 \<and> targetProgress < 100 \<and> totalDuration = 300
   \<and> newProgress 0 = 0
   \<and> (s \<le> t \<longrightarrow> newProgress s \<le> newProgress t)
   \<and> newProgress t \<le> targetProgress
   \<and> (0 \<le> t \<longrightarrow> 0 \<le> newProgress t)
   \<and> (totalDuration \<le> t \<longrightarrow> newProgress t = targetProgress)"
  by (auto simp: newProgress_def estimate_spec_def totalDuration_def targetProgress_def min_def
      field_simps)

theorem C8_witness:
  "(150::real) \<le> 400 \<and> (0::real) \<le> 400 \<and> totalDuration \<le> 400
   \<and> newProgress 150 = 46 \<and> newProgress 400 = 92 \<and> newProgress 150 \<le> newProgress 400"
  using C8_progress_estimator [of 400 150]
  by (simp add: newProgress_def totalDuration_def targetProgress_def)

text \<open>
  Claim C9, as the specification states it: the displayed progress is a function of
  \<open>now - submittedAt\<close> alone, so that a restart or a second viewer shows the same value.
  The component keeps the start time in its own \<^verbatim>\<open>progressStates\<close>, taken from the clock
  at the first tick. What holds instead: after a tick, for every video it handles (the
  ids being distinct and none the start-time key of another) whose card shows the
  progress bar, that is, whose location is \<open>processing\<close> or \<open>pending\<close>, the displayed
  progress is the estimate of the time elapsed since the start time recorded in the
  component's progress state, or since the clock reading of that tick when none is
  recorded; the card of any other asset, a \<open>pending_<id>\<close> video among them, shows no
  percentage. Two computations at the same instant agree when they hold the same
  recorded start time.
\<close>

theorem C9_progress_from_recorded_start:
  assumes "(a, now1, now2) \<in> set work"
    and "distinct (map (\<lambda>w. asset_id (fst w)) work)"
    and "\<forall>b \<in> set work. \<forall>c \<in> set work. asset_id (fst b) \<noteq> startTimeKey (fst c)"
  shows "displayedProgress (progressTick work prev) a
           = (if asset_type a = ''video''
                 \<and> (asset_url a = Some ''processing'' \<or> asset_url a = Some ''pending'')
              then Some (newProgress ((now2 - numOr (prev (startTimeKey a)) now1) / 1000))
              else None)"
  using fold_display [OF assms, of "(prev, False)"]
  by (simp add: displayedProgress_def progressTick_def Let_def)

text \<open>
  Two videos in one tick; the queued one recorded its start 150 seconds before. The
  sentinel video shows no percentage.
\<close>

theorem C9_witness:
  "(queuedJob, 151000, 151000) \<in> set twoVideos
   \<and> distinct (map (\<lambda>w. asset_id (fst w)) twoVideos)
   \<and> asset_url queuedJob = Some ''pending''
   \<and> displayedProgress (progressTick twoVideos [''a1_startTime'' \<mapsto> 1000]) queuedJob = Some 46
   \<and> displayedProgress (progressTick [(pendingJob, 151000, 151000)] [''a1_startTime'' \<mapsto> 1000])
        pendingJob = None"
  using C9_progress_from_recorded_start [where a = queuedJob and ?now1.0 = 151000
      and ?now2.0 = 151000 and work = twoVideos and prev = "[''a1_startTime'' \<mapsto> 1000]"]
    C9_progress_from_recorded_start [where a = pendingJob and ?now1.0 = 151000
      and ?now2.0 = 151000 and work = "[(pendingJob, 151000, 151000)]"
      and prev = "[''a1_startTime'' \<mapsto> 1000]"]
  by (simp add: twoVideos_def otherJob_def queuedJob_def pendingJob_def mkAsset_def
      startTimeKey_def numOr_def newProgress_def totalDuration_def targetProgress_def)

text \<open>
  The claim fails for two viewers of the same queued job at the same instant: one that
  has just started shows 0, one that recorded a start time 150 seconds earlier shows 46.
\<close>

theorem C9_counterexample:
  "asset_type queuedJob = ''video'' \<and> asset_url queuedJob = Some ''pending''
   \<and> displayedProgress (progressTick [(queuedJob, 151000, 151000)] Map.empty) queuedJob = Some 0
   \<and> displayedProgress
        (progressTick [(queuedJob, 151000, 151000)] [''a1_startTime'' \<mapsto> 1000]) queuedJob
       = Some 46"
  by (simp add: displayedProgress_def progressTick_def progressStep_def Let_def numOr_def
      falsyNum_def startTimeKey_def queuedJob_def mkAsset_def newProgress_def totalDuration_def
      targetProgress_def)

section \<open>Upload gate\<close>

text \<open>
  Claim C10: a video asset whose location is the sentinel \<open>pending_<id>\<close> is in flight
  for the progress simulation and for the recovery button, and yet \<^verbatim>\<open>handleUpload\<close>
  opens the upload modal for it, and the upload button is rendered: the guard excludes
  only the strings \<open>processing\<close> and \<open>pending\<close>.
\<close>

theorem C10_upload_gate_admits_sentinel:
  assumes "asset_type a = ''video''" and "asset_url a = Some (''pending_'' @ ext)"
  shows "handleUpload st a = (st\<lparr>selectedAssetForUpload := Some a, showUploadModal := True\<rparr>, [])
         \<and> uploadButtonShown a
         \<and> isProcessingVideo a
         \<and> (source_system a = Some ''heygen'' \<and> a \<in> set xs \<longrightarrow> hasPendingHeyGenVideos xs)"
  using assms
  by (auto simp: handleUpload_def uploadButtonShown_def isProcessingVideo_def
      hasPendingHeyGenVideos_def truthy_def startsWith_def list_ex_iff)

theorem C10_witness:
  "asset_type pendingJob = ''video'' \<and> asset_url pendingJob = Some (''pending_'' @ ''ext-9'')
   \<and> source_system pendingJob = Some ''heygen''
   \<and> handleUpload (mkState [pendingJob]) pendingJob
       = ((mkState [pendingJob])\<lparr>selectedAssetForUpload := Some pendingJob, showUploadModal := True\<rparr>, [])
   \<and> isProcessingVideo pendingJob
   \<and> hasPendingHeyGenVideos [pendingJob]"
  using C10_upload_gate_admits_sentinel [of pendingJob "''ext-9''" "mkState [pendingJob]" "[pendingJob]"]
  by (simp add: pendingJob_def mkAsset_def)

end
